theory Spec2Isabelle
  imports Complex_Main "HOL-Library.Sublist" "HOL-Library.Char_ord" "HOL-Library.List_Lexorder"
    "HOL-Library.Multiset"
begin

section \<open>JavaScript values used by the product controller\<close>

text \<open>
  A JavaScript number is modelled as an exact rational, the two infinities or NaN.
  Two things are abstracted: rounding to a double (values are kept exact) and the sign
  of zero (\<open>-0\<close> and \<open>+0\<close> are one value, as they are once a response is serialised).
\<close>

datatype number = NaN | NegInfinity | Finite rat | PosInfinity

fun js_neg :: "number \<Rightarrow> number" where
  "js_neg NaN = NaN"
| "js_neg NegInfinity = PosInfinity"
| "js_neg PosInfinity = NegInfinity"
| "js_neg (Finite x) = Finite (- x)"

fun js_add :: "number \<Rightarrow> number \<Rightarrow> number" where
  "js_add NaN _ = NaN"
| "js_add _ NaN = NaN"
| "js_add (Finite x) (Finite y) = Finite (x + y)"
| "js_add (Finite x) i = i"
| "js_add i (Finite y) = i"
| "js_add i j = (if i = j then i else NaN)"

definition js_sub :: "number \<Rightarrow> number \<Rightarrow> number" where
  "js_sub a b = js_add a (js_neg b)"

fun js_mul :: "number \<Rightarrow> number \<Rightarrow> number" where
  "js_mul NaN _ = NaN"
| "js_mul _ NaN = NaN"
| "js_mul (Finite x) (Finite y) = Finite (x * y)"
| "js_mul (Finite x) i = (if x = 0 then NaN else if 0 < x then i else js_neg i)"
| "js_mul i (Finite y) = (if y = 0 then NaN else if 0 < y then i else js_neg i)"
| "js_mul i j = (if i = j then PosInfinity else NegInfinity)"

fun js_div :: "number \<Rightarrow> number \<Rightarrow> number" where
  "js_div NaN _ = NaN"
| "js_div _ NaN = NaN"
| "js_div (Finite x) (Finite y) =
     (if y = 0 then (if x = 0 then NaN else if 0 < x then PosInfinity else NegInfinity)
      else Finite (x / y))"
| "js_div (Finite x) i = Finite 0"
| "js_div i (Finite y) = (if 0 \<le> y then i else js_neg i)"
| "js_div i j = NaN"

text \<open>The relational operators: every comparison with NaN is false.\<close>

fun js_le :: "number \<Rightarrow> number \<Rightarrow> bool" where
  "js_le NaN _ = False"
| "js_le _ NaN = False"
| "js_le NegInfinity _ = True"
| "js_le _ PosInfinity = True"
| "js_le (Finite x) (Finite y) = (x \<le> y)"
| "js_le _ _ = False"

definition js_ge :: "number \<Rightarrow> number \<Rightarrow> bool" where
  "js_ge a b = js_le b a"

definition js_gt :: "number \<Rightarrow> number \<Rightarrow> bool" where
  "js_gt a b = (js_le b a \<and> a \<noteq> b)"

fun Math_ceil :: "number \<Rightarrow> number" where
  "Math_ceil (Finite x) = Finite (of_int \<lceil>x\<rceil>)"
| "Math_ceil v = v"

subsection \<open>parseInt and parseFloat\<close>

text \<open>
  Strings are lists of 8-bit characters, so only the ASCII white space of
  \<open>StrWhiteSpaceChar\<close> is recognised.
\<close>

definition isStrWhiteSpaceChar :: "char \<Rightarrow> bool" where
  "isStrWhiteSpaceChar c = (c \<in> set [CHR 0x09, CHR 0x0A, CHR 0x0B, CHR 0x0C, CHR 0x0D, CHR 0x20])"

definition digitValue :: "char \<Rightarrow> nat option" where
  "digitValue c =
     (let n = (of_char c :: nat) in
      if 48 \<le> n \<and> n \<le> 57 then Some (n - 48)
      else if 97 \<le> n \<and> n \<le> 122 then Some (n - 87)
      else if 65 \<le> n \<and> n \<le> 90 then Some (n - 55)
      else None)"

definition isRadixDigit :: "nat \<Rightarrow> char \<Rightarrow> bool" where
  "isRadixDigit R c = (case digitValue c of None \<Rightarrow> False | Some d \<Rightarrow> d < R)"

definition mathInt :: "nat \<Rightarrow> string \<Rightarrow> nat" where
  "mathInt R Z = foldl (\<lambda>a c. a * R + (case digitValue c of None \<Rightarrow> 0 | Some d \<Rightarrow> d)) 0 Z"

text \<open>
  \<open>parseInt(string)\<close> with no radix argument: trim leading white space, read a sign,
  strip a \<open>0x\<close>/\<open>0X\<close> prefix (radix 16, otherwise 10), and take the longest prefix of
  digits of the radix; NaN when that prefix is empty.
\<close>

definition parseInt :: "string \<Rightarrow> number" where
  "parseInt inputString =
     (let S = dropWhile isStrWhiteSpaceChar inputString;
          neg = (S \<noteq> [] \<and> hd S = CHR ''-'');
          S1 = (if S \<noteq> [] \<and> (hd S = CHR ''+'' \<or> hd S = CHR ''-'') then tl S else S);
          hex = (2 \<le> length S1 \<and> (take 2 S1 = ''0x'' \<or> take 2 S1 = ''0X''));
          R = (if hex then 16 else 10);
          S2 = (if hex then drop 2 S1 else S1);
          Z = takeWhile (isRadixDigit R) S2
      in if Z = [] then NaN
         else Finite (if neg then - of_nat (mathInt R Z) else of_nat (mathInt R Z)))"

definition pow10 :: "int \<Rightarrow> rat" where
  "pow10 e = (if 0 \<le> e then 10 ^ nat e else 1 / 10 ^ nat (- e))"

text \<open>
  The exponent part of a \<open>StrDecimalLiteral\<close>: \<open>e\<close> or \<open>E\<close>, an optional sign and at
  least one digit; anything else is not part of the literal and counts as exponent 0.
\<close>

definition exponentPart :: "string \<Rightarrow> int" where
  "exponentPart s =
     (case s of
        [] \<Rightarrow> 0
      | c # r \<Rightarrow>
          if c = CHR ''e'' \<or> c = CHR ''E'' then
            (let neg = (r \<noteq> [] \<and> hd r = CHR ''-'');
                 r1 = (if r \<noteq> [] \<and> (hd r = CHR ''+'' \<or> hd r = CHR ''-'') then tl r else r);
                 ds = takeWhile (isRadixDigit 10) r1
             in if ds = [] then 0
                else if neg then - int (mathInt 10 ds) else int (mathInt 10 ds))
          else 0)"

text \<open>
  \<open>parseFloat(string)\<close>: trim leading white space and read the longest prefix that is
  a \<open>StrDecimalLiteral\<close> (sign, then \<open>Infinity\<close> or digits with an optional fraction
  and exponent); NaN when no prefix is one.
\<close>

definition parseFloat :: "string \<Rightarrow> number" where
  "parseFloat inputString =
     (let S = dropWhile isStrWhiteSpaceChar inputString;
          neg = (S \<noteq> [] \<and> hd S = CHR ''-'');
          S1 = (if S \<noteq> [] \<and> (hd S = CHR ''+'' \<or> hd S = CHR ''-'') then tl S else S)
      in if prefix ''Infinity'' S1 then (if neg then NegInfinity else PosInfinity)
         else
           (let ip = takeWhile (isRadixDigit 10) S1;
                r1 = dropWhile (isRadixDigit 10) S1;
                dot = (r1 \<noteq> [] \<and> hd r1 = CHR ''.'');
                fp = (if dot then takeWhile (isRadixDigit 10) (tl r1) else []);
                r2 = (if dot then dropWhile (isRadixDigit 10) (tl r1) else r1);
                m = of_nat (mathInt 10 (ip @ fp)) * pow10 (exponentPart r2 - int (length fp))
            in if ip = [] \<and> fp = [] then NaN
               else Finite (if neg then - m else m)))"

subsection \<open>String.prototype.toLowerCase and String.prototype.includes\<close>

text \<open>Lower-casing is modelled on the ASCII letters; every other character is kept.\<close>

definition lowerChar :: "char \<Rightarrow> char" where
  "lowerChar c =
     (let n = (of_char c :: nat) in if 65 \<le> n \<and> n \<le> 90 then char_of (n + 32) else c)"

definition toLowerCase :: "string \<Rightarrow> string" where
  "toLowerCase s = map lowerChar s"

fun includes_str :: "string \<Rightarrow> string \<Rightarrow> bool" where
  "includes_str [] t = (t = [])"
| "includes_str (c # s) t = (prefix t (c # s) \<or> includes_str s t)"

subsection \<open>Array.prototype.slice and Array.prototype.sort\<close>

definition toIntegerOrInfinity :: "number \<Rightarrow> number" where
  "toIntegerOrInfinity v =
     (case v of
        NaN \<Rightarrow> Finite 0
      | Finite x \<Rightarrow> Finite (of_int (if 0 \<le> x then \<lfloor>x\<rfloor> else \<lceil>x\<rceil>))
      | NegInfinity \<Rightarrow> NegInfinity
      | PosInfinity \<Rightarrow> PosInfinity)"

text \<open>
  The index computation of \<open>slice\<close>: a negative relative index counts from the end,
  and the result is clamped into \<open>[0, len]\<close>.
\<close>

definition relativeIndex :: "nat \<Rightarrow> number \<Rightarrow> nat" where
  "relativeIndex len v =
     (case toIntegerOrInfinity v of
        NaN \<Rightarrow> 0
      | NegInfinity \<Rightarrow> 0
      | PosInfinity \<Rightarrow> len
      | Finite r \<Rightarrow>
          if r < 0 then nat (max (int len + \<lfloor>r\<rfloor>) 0) else nat (min \<lfloor>r\<rfloor> (int len)))"

definition slice :: "'a list \<Rightarrow> number \<Rightarrow> number \<Rightarrow> 'a list" where
  "slice xs start endArg =
     (let len = length xs;
          k = relativeIndex len start;
          final = relativeIndex len endArg
      in take (final - k) (drop k xs))"

text \<open>
  \<open>sort(comparefn)\<close> is a stable sort. An element moves behind another one only when
  the comparator says it is greater (a positive result); a NaN result counts as 0.
  With a consistent comparator this is the one order the language allows.
\<close>

fun sortInsert :: "('a \<Rightarrow> 'a \<Rightarrow> number) \<Rightarrow> 'a \<Rightarrow> 'a list \<Rightarrow> 'a list" where
  "sortInsert cmp x [] = [x]"
| "sortInsert cmp x (y # ys) =
     (if js_gt (cmp x y) (Finite 0) then y # sortInsert cmp x ys else x # y # ys)"

definition sortCompare :: "('a \<Rightarrow> 'a \<Rightarrow> number) \<Rightarrow> 'a list \<Rightarrow> 'a list" where
  "sortCompare cmp xs = foldr (sortInsert cmp) xs []"

section \<open>The in-memory store and the product controller\<close>

record product =
  product_id :: string
  name :: string
  description :: string
  price :: rat
  categoryId :: "string option"
  stock :: nat
  rating :: rat
  createdAt :: string

text \<open>
  \<open>req.query\<close>: each parameter is absent or a string. \<open>sort_q\<close> is the
  parameter \<open>sort\<close>.
\<close>

record query =
  category :: "string option"
  search :: "string option"
  minPrice :: "string option"
  maxPrice :: "string option"
  sort_q :: "string option"
  page :: "string option"
  limit :: "string option"

text \<open>The \<open>data\<close> object of the response: the page of products and \<open>pagination\<close>.\<close>

record response =
  products :: "product list"
  pagination_page :: number
  pagination_limit :: number
  pagination_total :: nat
  pagination_pages :: number

text \<open>
  Arrays are objects: a variable holds a reference, and \<open>filter\<close> allocates a new array
  while \<open>sort\<close> writes into the array it is called on. The store maps an address to the
  contents of the array there.
\<close>

type_synonym ref = nat
type_synonym store = "product list list"

definition Array_filter :: "(product \<Rightarrow> bool) \<Rightarrow> ref \<times> store \<Rightarrow> ref \<times> store" where
  "Array_filter P s = (case s of (r, h) \<Rightarrow> (length h, h @ [filter P (h ! r)]))"

definition Array_sort :: "(product \<Rightarrow> product \<Rightarrow> number) \<Rightarrow> ref \<times> store \<Rightarrow> ref \<times> store" where
  "Array_sort cmp s = (case s of (r, h) \<Rightarrow> (r, h[r := sortCompare cmp (h ! r)]))"

definition deref :: "ref \<times> store \<Rightarrow> product list" where
  "deref s = (case s of (r, h) \<Rightarrow> h ! r)"

text \<open>A query parameter is truthy when it is present and not the empty string.\<close>

definition truthy :: "string option \<Rightarrow> bool" where
  "truthy v = (case v of None \<Rightarrow> False | Some s \<Rightarrow> s \<noteq> [])"

text \<open>
  The destructuring defaults \<open>page = 1\<close> and \<open>limit = 20\<close> apply to an absent parameter
  only; \<open>parseInt\<close> first converts its argument to a string.
\<close>

definition pageArg :: "query \<Rightarrow> string" where
  "pageArg q = (case page q of None \<Rightarrow> ''1'' | Some s \<Rightarrow> s)"

definition limitArg :: "query \<Rightarrow> string" where
  "limitArg q = (case limit q of None \<Rightarrow> ''20'' | Some s \<Rightarrow> s)"

definition startIndex :: "query \<Rightarrow> number" where
  "startIndex q = js_mul (js_sub (parseInt (pageArg q)) (Finite 1)) (parseInt (limitArg q))"

definition endIndex :: "query \<Rightarrow> number" where
  "endIndex q = js_add (startIndex q) (parseInt (limitArg q))"

text \<open>
  \<open>getProducts\<close> of the product controller, run on the module-level array \<open>products\<close>
  of the database, which \<open>db.getProducts()\<close> returns by reference (address 0 of the
  store). The result is the \<open>data\<close> of the response and the contents of that array after
  the call. With string parameters and products whose name and description are
  strings no statement of the \<open>try\<close> block throws, so the \<open>catch\<close> branch has no
  counterpart here.
\<close>

definition getProducts :: "product list \<Rightarrow> query \<Rightarrow> response \<times> product list" where
  "getProducts db_products q =
     (let s0 = (0, [db_products]);
          s1 = (case category q of
                  None \<Rightarrow> s0
                | Some c \<Rightarrow>
                    if c \<noteq> [] then Array_filter (\<lambda>p. categoryId p = Some c) s0 else s0);
          s2 = (case search q of
                  None \<Rightarrow> s1
                | Some t \<Rightarrow>
                    if t \<noteq> [] then
                      (let searchLower = toLowerCase t
                       in Array_filter (\<lambda>p. includes_str (toLowerCase (name p)) searchLower \<or>
                                             includes_str (toLowerCase (description p)) searchLower) s1)
                    else s1);
          s3 = (case minPrice q of
                  None \<Rightarrow> s2
                | Some m \<Rightarrow>
                    if m \<noteq> [] then Array_filter (\<lambda>p. js_ge (Finite (price p)) (parseFloat m)) s2
                    else s2);
          s4 = (case maxPrice q of
                  None \<Rightarrow> s3
                | Some m \<Rightarrow>
                    if m \<noteq> [] then Array_filter (\<lambda>p. js_le (Finite (price p)) (parseFloat m)) s3
                    else s3);
          s5 = (if sort_q q = Some ''price_asc'' then
                  Array_sort (\<lambda>a b. js_sub (Finite (price a)) (Finite (price b))) s4
                else if sort_q q = Some ''price_desc'' then
                  Array_sort (\<lambda>a b. js_sub (Finite (price b)) (Finite (price a))) s4
                else if sort_q q = Some ''rating'' then
                  Array_sort (\<lambda>a b. js_sub (Finite (rating b)) (Finite (rating a))) s4
                else s4);
          paginatedProducts = slice (deref s5) (startIndex q) (endIndex q)
      in (\<lparr> products = paginatedProducts,
            pagination_page = parseInt (pageArg q),
            pagination_limit = parseInt (limitArg q),
            pagination_total = length (deref s5),
            pagination_pages =
              Math_ceil (js_div (Finite (of_nat (length (deref s5)))) (parseInt (limitArg q))) \<rparr>,
          snd s5 ! 0))"

section \<open>Notions of the specification\<close>

text \<open>
  A product satisfies the active filters of a query: a filter is active when its
  parameter is supplied, that is present and not empty. The search filter is stated
  with the substring relation \<open>sublist\<close>, the price filters with the comparison of the
  price and the parsed bound.
\<close>

definition satisfiesFilters :: "query \<Rightarrow> product \<Rightarrow> bool" where
  "satisfiesFilters q p =
     ((case category q of
         None \<Rightarrow> True
       | Some c \<Rightarrow> c = [] \<or> categoryId p = Some c) \<and>
      (case search q of
         None \<Rightarrow> True
       | Some t \<Rightarrow> t = [] \<or> sublist (toLowerCase t) (toLowerCase (name p))
                          \<or> sublist (toLowerCase t) (toLowerCase (description p))) \<and>
      (case minPrice q of
         None \<Rightarrow> True
       | Some m \<Rightarrow> m = [] \<or> js_ge (Finite (price p)) (parseFloat m)) \<and>
      (case maxPrice q of
         None \<Rightarrow> True
       | Some m \<Rightarrow> m = [] \<or> js_le (Finite (price p)) (parseFloat m)))"

definition anyFilter :: "query \<Rightarrow> bool" where
  "anyFilter q =
     (truthy (category q) \<or> truthy (search q) \<or> truthy (minPrice q) \<or> truthy (maxPrice q))"

text \<open>
  The order a sort key asks for, with the stable sort of the library: ascending by
  price, descending by price, descending by rating, and the given order for any other
  value of \<open>sort\<close>.
\<close>

definition orderBy :: "query \<Rightarrow> product list \<Rightarrow> product list" where
  "orderBy q xs =
     (if sort_q q = Some ''price_asc'' then sort_key price xs
      else if sort_q q = Some ''price_desc'' then sort_key (\<lambda>p. - price p) xs
      else if sort_q q = Some ''rating'' then sort_key (\<lambda>p. - rating p) xs
      else xs)"

text \<open>
  Requests for several pages, one after the other, against the same store: the
  items of the pages are concatenated, and each call runs on the array as the call
  before left it.
\<close>

fun fetchPages :: "product list \<Rightarrow> query \<Rightarrow> string list \<Rightarrow> product list \<times> product list" where
  "fetchPages db q [] = ([], db)"
| "fetchPages db q (pg # pgs) =
     (case getProducts db (q\<lparr>page := Some pg\<rparr>) of
        (r, db') \<Rightarrow> (case fetchPages db' q pgs of (items, db'') \<Rightarrow> (products r @ items, db'')))"

text \<open>
  The state of the controller between two statements: the variable \<open>products\<close> holds a
  valid reference, the array of the database sits at address 0 with contents \<open>c\<close>, the
  array the variable refers to has contents \<open>F\<close>, and the variable still refers to the
  array of the database exactly when no filter has run (\<open>a\<close> is false).
\<close>

definition holds :: "product list \<Rightarrow> product list \<Rightarrow> bool \<Rightarrow> ref \<times> store \<Rightarrow> bool" where
  "holds c F a s = (fst s < length (snd s) \<and> snd s ! 0 = c \<and> deref s = F \<and> (fst s = 0 \<longleftrightarrow> \<not> a))"

section \<open>Example data\<close>

text \<open>
  Five products in the order they were pushed into the store (oldest first), and the
  query with no parameter.
\<close>

definition productA :: product where
  "productA = \<lparr> product_id = ''prod-1'', name = ''Phone Case'', description = ''Slim case'',
      price = 10, categoryId = Some ''x'', stock = 5, rating = 4,
      createdAt = ''2024-01-01T00:00:00.000Z'' \<rparr>"

definition productB :: product where
  "productB = \<lparr> product_id = ''prod-2'', name = ''Laptop'', description = ''Light notebook'',
      price = 30, categoryId = Some ''y'', stock = 2, rating = 2,
      createdAt = ''2024-02-01T00:00:00.000Z'' \<rparr>"

definition productC :: product where
  "productC = \<lparr> product_id = ''prod-3'', name = ''Headphones'', description = ''Wireless'',
      price = 20, categoryId = Some ''x'', stock = 7, rating = 5,
      createdAt = ''2024-03-01T00:00:00.000Z'' \<rparr>"

definition productD :: product where
  "productD = \<lparr> product_id = ''prod-4'', name = ''Cable'', description = ''USB charging cable'',
      price = 5, categoryId = Some ''x'', stock = 9, rating = 1,
      createdAt = ''2024-04-01T00:00:00.000Z'' \<rparr>"

definition productE :: product where
  "productE = \<lparr> product_id = ''prod-5'', name = ''Monitor'', description = ''Wide screen'',
      price = 50, categoryId = Some ''y'', stock = 1, rating = 3,
      createdAt = ''2024-05-01T00:00:00.000Z'' \<rparr>"

definition productF :: product where
  "productF = \<lparr> product_id = ''prod-6'', name = ''Charger'', description = ''Fast charger'',
      price = 10, categoryId = Some ''y'', stock = 3, rating = 5,
      createdAt = ''2024-06-01T00:00:00.000Z'' \<rparr>"

definition catalog :: "product list" where
  "catalog = [productA, productB, productC, productD, productE]"

text \<open>The same catalog with a sixth product that ties on price and on rating.\<close>

definition tiedCatalog :: "product list" where
  "tiedCatalog = [productA, productB, productC, productD, productE, productF]"

definition emptyQuery :: query where
  "emptyQuery = \<lparr> category = None, search = None, minPrice = None, maxPrice = None,
      sort_q = None, page = None, limit = None \<rparr>"


section \<open>The library operations\<close>

lemma includes_str_sublist: "includes_str s t \<longleftrightarrow> sublist t s"
  by (induction s) (simp_all add: sublist_Cons_right)

lemma js_gt_sub:
  "js_gt (js_sub (Finite x) (Finite y)) (Finite 0) \<longleftrightarrow> \<not> x \<le> y"
  by (auto simp: js_gt_def js_sub_def)

lemma sortInsert_asc:
  "sortInsert (\<lambda>a b. js_sub (Finite (f a)) (Finite (f b))) x ys = insort_key f x ys"
  by (induction ys) (simp_all add: js_gt_sub)

lemma sortInsert_desc:
  "sortInsert (\<lambda>a b. js_sub (Finite (f b)) (Finite (f a))) x ys = insort_key (\<lambda>p. - f p) x ys"
  by (induction ys) (simp_all add: js_gt_sub)

lemma sortCompare_asc:
  "sortCompare (\<lambda>a b. js_sub (Finite (f a)) (Finite (f b))) xs = sort_key f xs"
proof -
  have "sortInsert (\<lambda>a b. js_sub (Finite (f a)) (Finite (f b))) = insort_key f"
    by (intro ext) (rule sortInsert_asc)
  then show ?thesis by (simp add: sortCompare_def sort_key_def)
qed

lemma sortCompare_desc:
  "sortCompare (\<lambda>a b. js_sub (Finite (f b)) (Finite (f a))) xs = sort_key (\<lambda>p. - f p) xs"
proof -
  have "sortInsert (\<lambda>a b. js_sub (Finite (f b)) (Finite (f a))) = insort_key (\<lambda>p. - f p)"
    by (intro ext) (rule sortInsert_desc)
  then show ?thesis by (simp add: sortCompare_def sort_key_def)
qed

subsection \<open>The store of the controller\<close>

lemma holds_init: "holds c c False (0, [c])"
  by (simp add: holds_def deref_def)

lemma holds_filter: "holds c F a s \<Longrightarrow> holds c (filter P F) True (Array_filter P s)"
  by (cases s) (auto simp: holds_def Array_filter_def deref_def nth_append)

lemma holds_sort:
  "holds c F a s \<Longrightarrow>
   holds (if a then c else sortCompare cmp c) (sortCompare cmp F) a (Array_sort cmp s)"
  by (cases s) (auto simp: holds_def Array_sort_def deref_def nth_list_update)

lemma holds_cong: "holds c F a s \<Longrightarrow> F = F' \<Longrightarrow> a = a' \<Longrightarrow> holds c F' a' s"
  by simp

lemma holds_stage:
  assumes "holds c F a s"
  shows "holds c (filter (\<lambda>p. case v of None \<Rightarrow> True | Some x \<Rightarrow> x = [] \<or> P x p) F) (a \<or> truthy v)
           (case v of None \<Rightarrow> s | Some x \<Rightarrow> if x \<noteq> [] then Array_filter (P x) s else s)"
proof (cases v)
  case None
  with assms show ?thesis by (simp add: truthy_def)
next
  case (Some x)
  show ?thesis
  proof (cases "x = []")
    case True
    with Some assms show ?thesis by (simp add: truthy_def)
  next
    case False
    with Some holds_filter [OF assms, of "P x"] show ?thesis by (simp add: truthy_def)
  qed
qed

lemma getProducts_char:
  "getProducts c q =
     (\<lparr> products = slice (orderBy q (filter (satisfiesFilters q) c)) (startIndex q) (endIndex q),
        pagination_page = parseInt (pageArg q),
        pagination_limit = parseInt (limitArg q),
        pagination_total = length (filter (satisfiesFilters q) c),
        pagination_pages =
          Math_ceil (js_div (Finite (of_nat (length (filter (satisfiesFilters q) c))))
                            (parseInt (limitArg q))) \<rparr>,
      if anyFilter q then c else orderBy q c)"
proof -
  define s1 where "s1 = (case category q of
                  None \<Rightarrow> (0, [c])
                | Some cat \<Rightarrow>
                    if cat \<noteq> [] then Array_filter (\<lambda>p. categoryId p = Some cat) (0, [c]) else (0, [c]))"
  define s2 where "s2 = (case search q of
                  None \<Rightarrow> s1
                | Some t \<Rightarrow>
                    if t \<noteq> [] then
                      Array_filter (\<lambda>p. includes_str (toLowerCase (name p)) (toLowerCase t) \<or>
                                             includes_str (toLowerCase (description p)) (toLowerCase t)) s1
                    else s1)"
  define s3 where "s3 = (case minPrice q of
                  None \<Rightarrow> s2
                | Some m \<Rightarrow>
                    if m \<noteq> [] then Array_filter (\<lambda>p. js_ge (Finite (price p)) (parseFloat m)) s2
                    else s2)"
  define s4 where "s4 = (case maxPrice q of
                  None \<Rightarrow> s3
                | Some m \<Rightarrow>
                    if m \<noteq> [] then Array_filter (\<lambda>p. js_le (Finite (price p)) (parseFloat m)) s3
                    else s3)"
  define s5 where "s5 = (if sort_q q = Some ''price_asc'' then
                  Array_sort (\<lambda>a b. js_sub (Finite (price a)) (Finite (price b))) s4
                else if sort_q q = Some ''price_desc'' then
                  Array_sort (\<lambda>a b. js_sub (Finite (price b)) (Finite (price a))) s4
                else if sort_q q = Some ''rating'' then
                  Array_sort (\<lambda>a b. js_sub (Finite (rating b)) (Finite (rating a))) s4
                else s4)"
  have run: "getProducts c q =
     (\<lparr> products = slice (deref s5) (startIndex q) (endIndex q),
        pagination_page = parseInt (pageArg q),
        pagination_limit = parseInt (limitArg q),
        pagination_total = length (deref s5),
        pagination_pages =
          Math_ceil (js_div (Finite (of_nat (length (deref s5)))) (parseInt (limitArg q))) \<rparr>,
      snd s5 ! 0)"
    unfolding getProducts_def Let_def s1_def s2_def s3_def s4_def s5_def ..
  define F where "F = filter (satisfiesFilters q) c"
  have h1: "holds c (filter (\<lambda>p. case category q of None \<Rightarrow> True
                                  | Some cat \<Rightarrow> cat = [] \<or> categoryId p = Some cat) c)
              (False \<or> truthy (category q)) s1"
    unfolding s1_def by (rule holds_stage [OF holds_init])
  note h2 = holds_stage [OF h1, where v = "search q" and P =
      "\<lambda>t p. includes_str (toLowerCase (name p)) (toLowerCase t) \<or>
             includes_str (toLowerCase (description p)) (toLowerCase t)", folded s2_def]
  note h3 = holds_stage [OF h2, where v = "minPrice q" and P =
      "\<lambda>m p. js_ge (Finite (price p)) (parseFloat m)", folded s3_def]
  note h4 = holds_stage [OF h3, where v = "maxPrice q" and P =
      "\<lambda>m p. js_le (Finite (price p)) (parseFloat m)", folded s4_def]
  have h4': "holds c F (anyFilter q) s4"
    apply (rule holds_cong [OF h4])
    subgoal
      unfolding F_def filter_filter
      by (rule filter_cong)
        (auto simp: satisfiesFilters_def includes_str_sublist split: option.splits)
    subgoal by (simp add: anyFilter_def)
    done
  have h5: "holds (if anyFilter q then c else orderBy q c) (orderBy q F) (anyFilter q) s5"
    unfolding s5_def orderBy_def
    using h4' holds_sort [OF h4', of "\<lambda>a b. js_sub (Finite (price a)) (Finite (price b))"]
      holds_sort [OF h4', of "\<lambda>a b. js_sub (Finite (price b)) (Finite (price a))"]
      holds_sort [OF h4', of "\<lambda>a b. js_sub (Finite (rating b)) (Finite (rating a))"]
    by (auto simp: sortCompare_asc sortCompare_desc)
  have len: "length (orderBy q F) = length F"
    by (simp add: orderBy_def)
  from h5 have "deref s5 = orderBy q F" and "snd s5 ! 0 = (if anyFilter q then c else orderBy q c)"
    by (simp_all add: holds_def)
  with run len show ?thesis by (simp add: F_def)
qed

subsection \<open>Slices\<close>

lemma parseInt_cases:
  "parseInt s = NaN \<or> (\<exists>i::int. parseInt s = Finite (of_int i))"
proof -
  have "\<And>k::nat. \<exists>i::int. (rat_of_nat k) = of_int i" by (metis of_int_of_nat_eq)
  moreover have "\<And>k::nat. \<exists>i::int. - (rat_of_nat k) = of_int i"
    by (metis of_int_of_nat_eq of_int_minus)
  ultimately show ?thesis
    by (simp add: parseInt_def Let_def)
qed

lemma relativeIndex_int:
  "relativeIndex len (Finite (of_int i)) =
     (if i < 0 then nat (max (int len + i) 0) else nat (min i (int len)))"
  by (simp add: relativeIndex_def toIntegerOrInfinity_def)

lemma relativeIndex_NaN: "relativeIndex len NaN = 0"
  by (simp add: relativeIndex_def toIntegerOrInfinity_def)

lemma slice_NaN: "slice xs NaN NaN = []"
  by (simp add: slice_def relativeIndex_NaN)

lemma slice_int:
  "slice xs (Finite (of_int a)) (Finite (of_int b)) =
     take (relativeIndex (length xs) (Finite (of_int b)) - relativeIndex (length xs) (Finite (of_int a)))
       (drop (relativeIndex (length xs) (Finite (of_int a))) xs)"
  by (simp add: slice_def Let_def)

lemma slice_page:
  "slice xs (Finite (of_int (int m * int n))) (Finite (of_int (int m * int n + int n))) =
     take n (drop (m * n) xs)"
proof -
  have a: "relativeIndex (length xs) (Finite (of_int (int m * int n))) = min (m * n) (length xs)"
    unfolding relativeIndex_int by (simp add: nat_mult_distrib flip: of_nat_mult)
  have "int m * int n + int n = int (m * n + n)" by simp
  then have b: "relativeIndex (length xs) (Finite (of_int (int m * int n + int n))) =
      min (m * n + n) (length xs)"
    unfolding relativeIndex_int by (simp only: of_nat_less_0_iff if_False flip: of_nat_min)
  show ?thesis
    unfolding slice_int a b
    by (cases "m * n \<le> length xs") (simp_all add: min_def)
qed

lemma length_slice_le:
  assumes "0 \<le> n"
  shows "int (length (slice xs (Finite (of_int a)) (Finite (of_int (a + n))))) \<le> n"
  unfolding slice_int relativeIndex_int using assms
  by (auto simp: min_def max_def)


lemma sublist_slice: "sublist (slice xs a b) xs"
  unfolding slice_def Let_def
  by (meson sublist_take sublist_drop sublist_order.order_trans)

lemma slice_Nil: "slice [] a b = []"
  by (simp add: slice_def)

subsection \<open>The start and end index\<close>

lemma indices_NaN_page: "parseInt (pageArg q) = NaN \<Longrightarrow> startIndex q = NaN \<and> endIndex q = NaN"
  by (simp add: startIndex_def endIndex_def js_sub_def)

lemma indices_NaN_limit: "parseInt (limitArg q) = NaN \<Longrightarrow> startIndex q = NaN \<and> endIndex q = NaN"
  by (cases "parseInt (pageArg q)") (simp_all add: startIndex_def endIndex_def js_sub_def)

lemma indices_int:
  assumes "parseInt (pageArg q) = Finite (of_int p)" "parseInt (limitArg q) = Finite (of_int n)"
  shows "startIndex q = Finite (of_int ((p - 1) * n))"
    and "endIndex q = Finite (of_int ((p - 1) * n + n))"
  using assms by (simp_all add: startIndex_def endIndex_def js_sub_def)

lemma orderBy_simps:
  "set (orderBy q xs) = set xs" "length (orderBy q xs) = length xs" "mset (orderBy q xs) = mset xs"
  by (simp_all add: orderBy_def)

subsection \<open>The sort is the stable sort\<close>

text \<open>
  Whatever algorithm an engine runs, a sorted permutation that keeps products of equal
  key in their order is the result of \<open>sortCompare\<close>.
\<close>

lemma sortCompare_unique:
  assumes "mset ys = mset xs" "sorted (map f ys)"
    and "\<And>k. filter (\<lambda>x. f x = k) ys = filter (\<lambda>x. f x = k) xs"
  shows "sortCompare (\<lambda>a b. js_sub (Finite (f a)) (Finite (f b))) xs = ys"
proof -
  have "sort_key f xs = ys"
  proof (rule properties_for_sort_key)
    show "mset ys = mset xs" by (rule assms(1))
    show "sorted (map f ys)" by (rule assms(2))
    show "filter (\<lambda>x. f k = f x) ys = filter (\<lambda>x. f k = f x) xs" for k
      using assms(3) [of "f k"] by (simp add: eq_commute)
  qed
  then show ?thesis by (simp add: sortCompare_asc)
qed

lemma stable_in_slice:
  assumes "\<And>v. filter (\<lambda>p. f p = v) S = filter (\<lambda>p. f p = v) F" "subseq F c"
  shows "subseq (filter (\<lambda>p. f p = v) (slice S a b)) (filter (\<lambda>p. f p = v) c)"
proof -
  have "subseq (filter (\<lambda>p. f p = v) (slice S a b)) (filter (\<lambda>p. f p = v) S)"
    by (intro subseq_filter sublist_imp_subseq sublist_slice)
  also have "filter (\<lambda>p. f p = v) S = filter (\<lambda>p. f p = v) F"
    by (rule assms(1))
  also have "subseq (filter (\<lambda>p. f p = v) F) (filter (\<lambda>p. f p = v) c)"
    by (intro subseq_filter assms(2))
  finally show ?thesis .
qed

lemma sorted_wrt_slice: "sorted_wrt R xs \<Longrightarrow> sorted_wrt R (slice xs a b)"
  by (simp add: slice_def Let_def)

lemma sort_key_neg_stable:
  fixes f :: "'a \<Rightarrow> rat"
  shows "filter (\<lambda>p. f p = v) (sort_key (\<lambda>p. - f p) xs) = filter (\<lambda>p. f p = v) xs"
  using sort_key_stable [of "\<lambda>p. - f p" "- v" xs] by simp

lemma sorted_desc:
  fixes f :: "'a \<Rightarrow> rat"
  shows "sorted_wrt (\<lambda>a b. f b \<le> f a) (sort_key (\<lambda>p. - f p) xs)"
  using sorted_sort_key [of "\<lambda>p. - f p" xs] by (simp add: sorted_map)

lemma sorted_asc:
  fixes f :: "'a \<Rightarrow> rat"
  shows "sorted_wrt (\<lambda>a b. f a \<le> f b) (sort_key f xs)"
  using sorted_sort_key [of f xs] by (simp add: sorted_map)

subsection \<open>One page, and pages fetched one after the other\<close>

lemma page_update_simps:
  "limitArg (q\<lparr>page := Some pg\<rparr>) = limitArg q"
  "pageArg (q\<lparr>page := Some pg\<rparr>) = pg"
  "satisfiesFilters (q\<lparr>page := Some pg\<rparr>) = satisfiesFilters q"
  "anyFilter (q\<lparr>page := Some pg\<rparr>) = anyFilter q"
  "orderBy (q\<lparr>page := Some pg\<rparr>) = orderBy q"
  by (simp_all add: limitArg_def pageArg_def satisfiesFilters_def anyFilter_def orderBy_def
      fun_eq_iff)

lemma satisfiesFilters_no_filter: "\<not> anyFilter q \<Longrightarrow> satisfiesFilters q p"
  by (auto simp: anyFilter_def truthy_def satisfiesFilters_def split: option.splits)

lemma orderBy_idem: "orderBy q (orderBy q xs) = orderBy q xs"
  by (simp add: orderBy_def sort_key_id_if_sorted)

lemma orderBy_after_call:
  "orderBy q (filter (satisfiesFilters q) (snd (getProducts db q))) =
   orderBy q (filter (satisfiesFilters q) db)"
  by (simp add: getProducts_char satisfiesFilters_no_filter orderBy_idem)

lemma page_items:
  assumes "parseInt (limitArg q) = Finite (of_nat n)" "parseInt (pageArg q) = Finite (of_nat (Suc m))"
  shows "products (fst (getProducts db q)) =
           take n (drop (m * n) (orderBy q (filter (satisfiesFilters q) db)))"
proof -
  have pl: "parseInt (pageArg q) = Finite (of_int (int (Suc m)))"
    "parseInt (limitArg q) = Finite (of_int (int n))"
    using assms by simp_all
  have arith: "(int (Suc m) - 1) * int n = int m * int n" by simp
  note ix = indices_int [OF pl, unfolded arith]
  show ?thesis
    by (simp only: getProducts_char fst_conv response.select_convs ix slice_page)
qed

lemma fetchPages_from:
  assumes "parseInt (limitArg q) = Finite (of_nat n)"
    and "map parseInt pgs = map (\<lambda>i. Finite (of_nat i)) [Suc m..<Suc m + length pgs]"
  shows "fst (fetchPages db q pgs) =
           take (length pgs * n) (drop (m * n) (orderBy q (filter (satisfiesFilters q) db)))"
  using assms(2)
proof (induction pgs arbitrary: m db)
  case Nil
  show ?case by simp
next
  case (Cons pg pgs)
  let ?T = "orderBy q (filter (satisfiesFilters q) db)"
  let ?q = "q\<lparr>page := Some pg\<rparr>"
  have "[Suc m..<Suc m + length (pg # pgs)] = Suc m # [Suc (Suc m)..<Suc (Suc m) + length pgs]"
    by (subst upt_rec) (simp del: upt_Suc)
  with Cons.prems have pg: "parseInt pg = Finite (of_nat (Suc m))"
    and rest: "map parseInt pgs = map (\<lambda>i. Finite (of_nat i)) [Suc (Suc m)..<Suc (Suc m) + length pgs]"
    by (simp_all del: upt_Suc)
  have items: "products (fst (getProducts db ?q)) = take n (drop (m * n) ?T)"
    using page_items [of ?q n m db] assms(1) pg by (simp add: page_update_simps)
  have inv: "orderBy q (filter (satisfiesFilters q) (snd (getProducts db ?q))) = ?T"
    using orderBy_after_call [of ?q db] by (simp add: page_update_simps)
  have "fst (fetchPages (snd (getProducts db ?q)) q pgs) =
      take (length pgs * n) (drop (Suc m * n) ?T)"
    using Cons.IH [OF rest, of "snd (getProducts db ?q)"] inv by simp
  then have "fst (fetchPages db q (pg # pgs)) =
      take n (drop (m * n) ?T) @ take (length pgs * n) (drop n (drop (m * n) ?T))"
    using items by (simp add: split_beta add.commute)
  then show ?case
    by (simp add: take_add)
qed

subsection \<open>The number of pages\<close>

lemma parseInt_defaults: "parseInt ''1'' = Finite 1" "parseInt ''20'' = Finite 20"
  by code_simp+

lemma pages_positive_limit:
  assumes "1 \<le> n"
  shows "Math_ceil (js_div (Finite (of_nat t)) (Finite (of_nat n))) =
           Finite (of_int \<lceil>rat_of_nat t / rat_of_nat n\<rceil>)"
  using assms by simp

lemma ceiling_div_nonneg: "0 \<le> \<lceil>rat_of_nat t / rat_of_nat n\<rceil>"
proof -
  have "0 \<le> rat_of_nat t / rat_of_nat n" by simp
  then have "- 1 < rat_of_nat t / rat_of_nat n" by linarith
  then show ?thesis by (simp add: zero_le_ceiling)
qed

lemma ceiling_div_zero:
  assumes "1 \<le> n"
  shows "\<lceil>rat_of_nat t / rat_of_nat n\<rceil> = 0 \<longleftrightarrow> t = 0"
proof
  assume "\<lceil>rat_of_nat t / rat_of_nat n\<rceil> = 0"
  then have "rat_of_nat t / rat_of_nat n \<le> 0" by (simp add: ceiling_eq_iff)
  with assms show "t = 0" by (simp add: divide_le_0_iff)
qed simp

lemma ceiling_div_covers:
  assumes "1 \<le> n" "\<lceil>rat_of_nat t / rat_of_nat n\<rceil> \<le> int m"
  shows "t \<le> m * n"
proof -
  from assms(2) have "rat_of_nat t / rat_of_nat n \<le> rat_of_nat m"
    by (simp add: ceiling_le_iff)
  with assms(1) have "rat_of_nat t \<le> rat_of_nat m * rat_of_nat n"
    by (simp add: pos_divide_le_eq)
  then have "rat_of_nat t \<le> rat_of_nat (m * n)" by simp
  then show ?thesis by (simp only: of_nat_le_iff)
qed

subsection \<open>Pages outside the data\<close>

lemma js_le_NaN: "\<not> js_le x NaN"
  by (cases x) simp_all

lemma js_gt_Finite: "js_gt (Finite x) (Finite y) \<longleftrightarrow> y < x"
  by (auto simp: js_gt_def)

lemma page_length_le:
  assumes "parseInt (limitArg q) = Finite (of_nat n)"
  shows "length (slice xs (startIndex q) (endIndex q)) \<le> n"
proof -
  consider "parseInt (pageArg q) = NaN" | i where "parseInt (pageArg q) = Finite (of_int i)"
    using parseInt_cases by blast
  then show ?thesis
  proof cases
    case 1
    then show ?thesis by (simp add: indices_NaN_page slice_NaN)
  next
    case 2
    have l: "parseInt (limitArg q) = Finite (of_int (int n))" using assms by simp
    have "int (length (slice xs (startIndex q) (endIndex q))) \<le> int n"
      unfolding indices_int [OF 2 l] by (rule length_slice_le) simp
    then show ?thesis by simp
  qed
qed

lemma page_beyond_empty:
  assumes "parseInt (limitArg q) = Finite (of_nat n)"
    and "js_gt (parseInt (pageArg q))
           (Math_ceil (js_div (Finite (of_nat (length xs))) (parseInt (limitArg q))))"
    and "products (fst (getProducts c q)) = slice xs (startIndex q) (endIndex q)"
    and "xs = orderBy q (filter (satisfiesFilters q) c)"
  shows "products (fst (getProducts c q)) = []"
proof (cases "n = 0")
  case True
  with assms(1,2) show ?thesis
    by (cases "parseInt (pageArg q)"; cases "length xs = 0") (simp_all add: js_gt_def)
next
  case False
  then have n: "1 \<le> n" by simp
  from assms(2) have "parseInt (pageArg q) \<noteq> NaN"
    by (auto simp: js_gt_def js_le_NaN)
  with parseInt_cases [of "pageArg q"] obtain i where i: "parseInt (pageArg q) = Finite (of_int i)"
    by blast
  with assms(1,2) n have "\<lceil>rat_of_nat (length xs) / rat_of_nat n\<rceil> < i"
    by (simp add: js_gt_Finite)
  with ceiling_div_nonneg [of "length xs" n]
  have "i = int (Suc (nat (i - 1)))"
    and "\<lceil>rat_of_nat (length xs) / rat_of_nat n\<rceil> \<le> int (nat (i - 1))"
    by linarith+
  then obtain m where m: "i = int (Suc m)"
    and le: "\<lceil>rat_of_nat (length xs) / rat_of_nat n\<rceil> \<le> int m"
    by blast
  from ceiling_div_covers [OF n le] have "length xs \<le> m * n" .
  moreover have "products (fst (getProducts c q)) = take n (drop (m * n) xs)"
    using page_items [of q n m c] assms(1,4) i m by simp
  ultimately show ?thesis by simp
qed

subsection \<open>Price bounds that do not parse\<close>

lemma empty_minPrice:
  assumes "minPrice q = Some []"
  shows "getProducts c q = getProducts c (q\<lparr>minPrice := None\<rparr>)"
proof -
  have "satisfiesFilters (q\<lparr>minPrice := None\<rparr>) = satisfiesFilters q"
    "anyFilter (q\<lparr>minPrice := None\<rparr>) = anyFilter q"
    "orderBy (q\<lparr>minPrice := None\<rparr>) = orderBy q"
    "startIndex (q\<lparr>minPrice := None\<rparr>) = startIndex q"
    "endIndex (q\<lparr>minPrice := None\<rparr>) = endIndex q"
    "limitArg (q\<lparr>minPrice := None\<rparr>) = limitArg q"
    "pageArg (q\<lparr>minPrice := None\<rparr>) = pageArg q"
    using assms
    by (simp_all add: satisfiesFilters_def anyFilter_def orderBy_def startIndex_def endIndex_def
        limitArg_def pageArg_def truthy_def fun_eq_iff)
  then show ?thesis by (simp add: getProducts_char)
qed

lemma empty_maxPrice:
  assumes "maxPrice q = Some []"
  shows "getProducts c q = getProducts c (q\<lparr>maxPrice := None\<rparr>)"
proof -
  have "satisfiesFilters (q\<lparr>maxPrice := None\<rparr>) = satisfiesFilters q"
    "anyFilter (q\<lparr>maxPrice := None\<rparr>) = anyFilter q"
    "orderBy (q\<lparr>maxPrice := None\<rparr>) = orderBy q"
    "startIndex (q\<lparr>maxPrice := None\<rparr>) = startIndex q"
    "endIndex (q\<lparr>maxPrice := None\<rparr>) = endIndex q"
    "limitArg (q\<lparr>maxPrice := None\<rparr>) = limitArg q"
    "pageArg (q\<lparr>maxPrice := None\<rparr>) = pageArg q"
    using assms
    by (simp_all add: satisfiesFilters_def anyFilter_def orderBy_def startIndex_def endIndex_def
        limitArg_def pageArg_def truthy_def fun_eq_iff)
  then show ?thesis by (simp add: getProducts_char)
qed

lemma NaN_bound_no_match:
  assumes "(minPrice q = Some m \<or> maxPrice q = Some m) \<and> m \<noteq> [] \<and> parseFloat m = NaN"
  shows "filter (satisfiesFilters q) c = []"
proof -
  have "\<not> satisfiesFilters q p" for p
    using assms by (auto simp: satisfiesFilters_def js_ge_def js_le_NaN)
  then show ?thesis by simp
qed

subsection \<open>The array of the database after a call\<close>

lemma catalog_only_reordered:
  "mset (snd (getProducts c q)) = mset c"
  by (simp add: getProducts_char orderBy_simps)

lemma catalog_unchanged_when_filtered:
  "anyFilter q \<Longrightarrow> snd (getProducts c q) = c"
  by (simp add: getProducts_char)

section \<open>The claims\<close>



text \<open>
  C2 asks for the items in descending order of \<open>createdAt\<close> when no sort key is given.
  The controller has no branch for that: with no \<open>sort\<close> parameter, and with
  \<open>sort=newest\<close> as the product page sends it, it runs no sort at all and the items come
  back in the order of the catalog. The example catalog holds the oldest product
  first, as \<open>createProduct\<close> pushes them, so the items are not in descending order of
  \<open>createdAt\<close>.
\<close>

theorem default_order_is_catalog_order:
  "products (fst (getProducts catalog emptyQuery)) = catalog \<and>
   products (fst (getProducts catalog (emptyQuery\<lparr>sort_q := Some ''newest''\<rparr>))) = catalog \<and>
   \<not> sorted (rev (map createdAt (products (fst (getProducts catalog emptyQuery)))))"
proof -
  have "products (fst (getProducts catalog emptyQuery)) = catalog" by code_simp
  moreover have "products (fst (getProducts catalog (emptyQuery\<lparr>sort_q := Some ''newest''\<rparr>))) = catalog"
    by code_simp
  moreover have "\<not> sorted (rev (map createdAt (products (fst (getProducts catalog emptyQuery)))))"
    by code_simp
  ultimately show ?thesis by blast
qed

text \<open>
  C3 asks that a call leaves the catalog as it was. A call with a recognised sort key
  and no active filter sorts the array of the database itself: \<open>db.getProducts()\<close> hands
  out the array, no filter has copied it, and \<open>sort\<close> works in place. After the call the
  catalog is in a different order.
\<close>

theorem sort_reorders_the_catalog:
  "snd (getProducts catalog (emptyQuery\<lparr>sort_q := Some ''price_asc''\<rparr>)) =
     [productD, productA, productC, productB, productE] \<and>
   snd (getProducts catalog (emptyQuery\<lparr>sort_q := Some ''price_asc''\<rparr>)) \<noteq> catalog"
proof -
  have "snd (getProducts catalog (emptyQuery\<lparr>sort_q := Some ''price_asc''\<rparr>)) =
     [productD, productA, productC, productB, productE]" by code_simp
  moreover have "[productD, productA, productC, productB, productE] \<noteq> catalog" by code_simp
  ultimately show ?thesis by simp
qed

text \<open>
  C4, as stated, fails: \<open>page=0\<close> is echoed as 0 and yields no items, where page 1
  holds two products.
\<close>

theorem page_below_one_not_clamped:
  "pagination_page (fst (getProducts catalog (emptyQuery\<lparr>page := Some ''0'', limit := Some ''2''\<rparr>)))
     = Finite 0 \<and>
   products (fst (getProducts catalog (emptyQuery\<lparr>page := Some ''0'', limit := Some ''2''\<rparr>))) \<noteq>
   products (fst (getProducts catalog (emptyQuery\<lparr>page := Some ''1'', limit := Some ''2''\<rparr>)))"
proof -
  have "pagination_page (fst (getProducts catalog (emptyQuery\<lparr>page := Some ''0'', limit := Some ''2''\<rparr>)))
     = Finite 0" by code_simp
  moreover have "products (fst (getProducts catalog (emptyQuery\<lparr>page := Some ''0'', limit := Some ''2''\<rparr>))) = []"
    by code_simp
  moreover have "products (fst (getProducts catalog (emptyQuery\<lparr>page := Some ''1'', limit := Some ''2''\<rparr>))) =
    [productA, productB]" by code_simp
  ultimately show ?thesis by simp
qed

text \<open>
  C4, amended. The controller clamps nothing. The response echoes \<open>parseInt(page)\<close> and
  \<open>parseInt(limit)\<close> as parsed, with 1 and 20 for an absent parameter; and when the page
  parses to a positive integer \<open>m + 1\<close> and the limit to a natural number \<open>n\<close>, the
  items are the \<open>n\<close> products after the first \<open>m * n\<close> of the filtered and sorted
  sequence.
\<close>

theorem page_and_limit_echoed:
  "pagination_page (fst (getProducts c q)) = parseInt (pageArg q) \<and>
   pagination_limit (fst (getProducts c q)) = parseInt (limitArg q) \<and>
   (page q = None \<longrightarrow> pagination_page (fst (getProducts c q)) = Finite 1) \<and>
   (limit q = None \<longrightarrow> pagination_limit (fst (getProducts c q)) = Finite 20) \<and>
   (parseInt (pageArg q) = Finite (of_nat (Suc m)) \<and> parseInt (limitArg q) = Finite (of_nat n) \<longrightarrow>
      products (fst (getProducts c q)) =
        take n (drop (m * n) (orderBy q (filter (satisfiesFilters q) c))))"
  using page_items [of q n m c]
  by (simp add: getProducts_char pageArg_def limitArg_def parseInt_defaults)

theorem page_and_limit_echoed_witness:
  "page (emptyQuery\<lparr>sort_q := Some ''rating''\<rparr>) = None \<and>
   limit (emptyQuery\<lparr>sort_q := Some ''rating''\<rparr>) = None \<and>
   pagination_page (fst (getProducts catalog (emptyQuery\<lparr>sort_q := Some ''rating''\<rparr>))) = Finite 1 \<and>
   pagination_limit (fst (getProducts catalog (emptyQuery\<lparr>sort_q := Some ''rating''\<rparr>))) = Finite 20 \<and>
   parseInt (pageArg (emptyQuery\<lparr>sort_q := Some ''rating'', page := Some ''2'', limit := Some ''2''\<rparr>))
     = Finite (of_nat (Suc 1)) \<and>
   parseInt (limitArg (emptyQuery\<lparr>sort_q := Some ''rating'', page := Some ''2'', limit := Some ''2''\<rparr>))
     = Finite (of_nat 2) \<and>
   products (fst (getProducts catalog
      (emptyQuery\<lparr>sort_q := Some ''rating'', page := Some ''2'', limit := Some ''2''\<rparr>))) =
     take 2 (drop (1 * 2)
       (orderBy (emptyQuery\<lparr>sort_q := Some ''rating'', page := Some ''2'', limit := Some ''2''\<rparr>)
          (filter (satisfiesFilters
             (emptyQuery\<lparr>sort_q := Some ''rating'', page := Some ''2'', limit := Some ''2''\<rparr>)) catalog))) \<and>
   products (fst (getProducts catalog
      (emptyQuery\<lparr>sort_q := Some ''rating'', page := Some ''2'', limit := Some ''2''\<rparr>))) =
     [productE, productB]"
proof -
  let ?q1 = "emptyQuery\<lparr>sort_q := Some ''rating''\<rparr>"
  let ?q2 = "emptyQuery\<lparr>sort_q := Some ''rating'', page := Some ''2'', limit := Some ''2''\<rparr>"
  have a: "page ?q1 = None" "limit ?q1 = None" by (simp_all add: emptyQuery_def)
  have b: "parseInt (pageArg ?q2) = Finite (of_nat (Suc 1))"
    "parseInt (limitArg ?q2) = Finite (of_nat 2)" by code_simp+
  have e: "products (fst (getProducts catalog ?q2)) = [productE, productB]" by code_simp
  from a b e page_and_limit_echoed [of catalog ?q1]
    page_and_limit_echoed [of catalog ?q2 1 2]
  show ?thesis by blast
qed

text \<open>
  C5. For each of the three sort keys the controller knows (\<open>price_asc\<close>, \<open>price_desc\<close>
  and \<open>rating\<close>, the spec's price ascending, price descending and rating descending) the
  returned items are a slice of the stable sort of the filtered catalog by that key:
  they are ascending by price, descending by price and descending by rating, and the
  items of any one key value appear in the order they have in the catalog.
\<close>

theorem explicit_sort_keys:
  "(sort_q q = Some ''price_asc'' \<longrightarrow>
      products (fst (getProducts c q)) =
        slice (sort_key price (filter (satisfiesFilters q) c)) (startIndex q) (endIndex q) \<and>
      sorted_wrt (\<lambda>a b. price a \<le> price b) (products (fst (getProducts c q))) \<and>
      (\<forall>v. subseq (filter (\<lambda>p. price p = v) (products (fst (getProducts c q))))
                  (filter (\<lambda>p. price p = v) c))) \<and>
   (sort_q q = Some ''price_desc'' \<longrightarrow>
      products (fst (getProducts c q)) =
        slice (sort_key (\<lambda>p. - price p) (filter (satisfiesFilters q) c)) (startIndex q) (endIndex q) \<and>
      sorted_wrt (\<lambda>a b. price b \<le> price a) (products (fst (getProducts c q))) \<and>
      (\<forall>v. subseq (filter (\<lambda>p. price p = v) (products (fst (getProducts c q))))
                  (filter (\<lambda>p. price p = v) c))) \<and>
   (sort_q q = Some ''rating'' \<longrightarrow>
      products (fst (getProducts c q)) =
        slice (sort_key (\<lambda>p. - rating p) (filter (satisfiesFilters q) c)) (startIndex q) (endIndex q) \<and>
      sorted_wrt (\<lambda>a b. rating b \<le> rating a) (products (fst (getProducts c q))) \<and>
      (\<forall>v. subseq (filter (\<lambda>p. rating p = v) (products (fst (getProducts c q))))
                  (filter (\<lambda>p. rating p = v) c)))"
proof (intro conjI impI allI)
  assume "sort_q q = Some ''price_asc''"
  then have ob: "orderBy q = sort_key price" by (intro ext) (simp add: orderBy_def)
  show "products (fst (getProducts c q)) =
        slice (sort_key price (filter (satisfiesFilters q) c)) (startIndex q) (endIndex q)"
    by (simp add: getProducts_char ob)
  show "sorted_wrt (\<lambda>a b. price a \<le> price b) (products (fst (getProducts c q)))"
    by (simp add: getProducts_char ob sorted_wrt_slice sorted_asc)
  show "subseq (filter (\<lambda>p. price p = v) (products (fst (getProducts c q))))
                  (filter (\<lambda>p. price p = v) c)" for v
    unfolding getProducts_char ob fst_conv response.simps
    by (rule stable_in_slice [where F = "filter (satisfiesFilters q) c"])
      (simp_all add: sort_key_stable)
next
  assume "sort_q q = Some ''price_desc''"
  then have ob: "orderBy q = sort_key (\<lambda>p. - price p)" by (intro ext) (simp add: orderBy_def)
  show "products (fst (getProducts c q)) =
        slice (sort_key (\<lambda>p. - price p) (filter (satisfiesFilters q) c)) (startIndex q) (endIndex q)"
    by (simp add: getProducts_char ob)
  show "sorted_wrt (\<lambda>a b. price b \<le> price a) (products (fst (getProducts c q)))"
    by (simp add: getProducts_char ob sorted_wrt_slice sorted_desc)
  show "subseq (filter (\<lambda>p. price p = v) (products (fst (getProducts c q))))
                  (filter (\<lambda>p. price p = v) c)" for v
    unfolding getProducts_char ob fst_conv response.simps
    by (rule stable_in_slice [where F = "filter (satisfiesFilters q) c"])
      (simp_all add: sort_key_neg_stable)
next
  assume "sort_q q = Some ''rating''"
  then have ob: "orderBy q = sort_key (\<lambda>p. - rating p)" by (intro ext) (simp add: orderBy_def)
  show "products (fst (getProducts c q)) =
        slice (sort_key (\<lambda>p. - rating p) (filter (satisfiesFilters q) c)) (startIndex q) (endIndex q)"
    by (simp add: getProducts_char ob)
  show "sorted_wrt (\<lambda>a b. rating b \<le> rating a) (products (fst (getProducts c q)))"
    by (simp add: getProducts_char ob sorted_wrt_slice sorted_desc)
  show "subseq (filter (\<lambda>p. rating p = v) (products (fst (getProducts c q))))
                  (filter (\<lambda>p. rating p = v) c)" for v
    unfolding getProducts_char ob fst_conv response.simps
    by (rule stable_in_slice [where F = "filter (satisfiesFilters q) c"])
      (simp_all add: sort_key_neg_stable)
qed

theorem explicit_sort_keys_witness:
  "sort_q (emptyQuery\<lparr>sort_q := Some ''price_asc''\<rparr>) = Some ''price_asc'' \<and>
   products (fst (getProducts tiedCatalog (emptyQuery\<lparr>sort_q := Some ''price_asc''\<rparr>))) =
     [productD, productA, productF, productC, productB, productE] \<and>
   sorted_wrt (\<lambda>a b. price a \<le> price b)
     (products (fst (getProducts tiedCatalog (emptyQuery\<lparr>sort_q := Some ''price_asc''\<rparr>)))) \<and>
   subseq (filter (\<lambda>p. price p = 10)
             (products (fst (getProducts tiedCatalog (emptyQuery\<lparr>sort_q := Some ''price_asc''\<rparr>)))))
          (filter (\<lambda>p. price p = 10) tiedCatalog) \<and>
   sort_q (emptyQuery\<lparr>sort_q := Some ''price_desc''\<rparr>) = Some ''price_desc'' \<and>
   products (fst (getProducts tiedCatalog (emptyQuery\<lparr>sort_q := Some ''price_desc''\<rparr>))) =
     [productE, productB, productC, productA, productF, productD] \<and>
   sorted_wrt (\<lambda>a b. price b \<le> price a)
     (products (fst (getProducts tiedCatalog (emptyQuery\<lparr>sort_q := Some ''price_desc''\<rparr>)))) \<and>
   sort_q (emptyQuery\<lparr>sort_q := Some ''rating''\<rparr>) = Some ''rating'' \<and>
   products (fst (getProducts tiedCatalog (emptyQuery\<lparr>sort_q := Some ''rating''\<rparr>))) =
     [productC, productF, productA, productE, productB, productD] \<and>
   sorted_wrt (\<lambda>a b. rating b \<le> rating a)
     (products (fst (getProducts tiedCatalog (emptyQuery\<lparr>sort_q := Some ''rating''\<rparr>))))"
proof -
  have e1: "products (fst (getProducts tiedCatalog (emptyQuery\<lparr>sort_q := Some ''price_asc''\<rparr>))) =
     [productD, productA, productF, productC, productB, productE]"
    by code_simp
  have e2: "products (fst (getProducts tiedCatalog (emptyQuery\<lparr>sort_q := Some ''price_desc''\<rparr>))) =
     [productE, productB, productC, productA, productF, productD]"
    by code_simp
  have e3: "products (fst (getProducts tiedCatalog (emptyQuery\<lparr>sort_q := Some ''rating''\<rparr>))) =
     [productC, productF, productA, productE, productB, productD]"
    by code_simp
  have s: "sort_q (emptyQuery\<lparr>sort_q := Some ''price_asc''\<rparr>) = Some ''price_asc''"
    "sort_q (emptyQuery\<lparr>sort_q := Some ''price_desc''\<rparr>) = Some ''price_desc''"
    "sort_q (emptyQuery\<lparr>sort_q := Some ''rating''\<rparr>) = Some ''rating''"
    by simp_all
  from s e1 e2 e3
    explicit_sort_keys [where q = "emptyQuery\<lparr>sort_q := Some ''price_asc''\<rparr>" and c = tiedCatalog]
    explicit_sort_keys [where q = "emptyQuery\<lparr>sort_q := Some ''price_desc''\<rparr>" and c = tiedCatalog]
    explicit_sort_keys [where q = "emptyQuery\<lparr>sort_q := Some ''rating''\<rparr>" and c = tiedCatalog]
  show ?thesis
    by blast
qed

text \<open>
  C6, as stated, fails: the page size is not clamped, so with \<open>limit=0\<close> every page is
  the empty slice. The pages 1 to 6 of the five-product catalog concatenate to no
  product at all, where the filtered and sorted sequence is the whole catalog.
\<close>

theorem pages_with_zero_limit:
  "fst (fetchPages catalog (emptyQuery\<lparr>limit := Some ''0''\<rparr>)
          [''1'', ''2'', ''3'', ''4'', ''5'', ''6'']) = [] \<and>
   orderBy (emptyQuery\<lparr>limit := Some ''0''\<rparr>)
     (filter (satisfiesFilters (emptyQuery\<lparr>limit := Some ''0''\<rparr>)) catalog) = catalog \<and>
   fst (fetchPages catalog (emptyQuery\<lparr>limit := Some ''0''\<rparr>)
          [''1'', ''2'', ''3'', ''4'', ''5'', ''6'']) \<noteq>
   orderBy (emptyQuery\<lparr>limit := Some ''0''\<rparr>)
     (filter (satisfiesFilters (emptyQuery\<lparr>limit := Some ''0''\<rparr>)) catalog)"
proof -
  have a: "fst (fetchPages catalog (emptyQuery\<lparr>limit := Some ''0''\<rparr>)
          [''1'', ''2'', ''3'', ''4'', ''5'', ''6'']) = []"
    by code_simp
  have b: "orderBy (emptyQuery\<lparr>limit := Some ''0''\<rparr>)
     (filter (satisfiesFilters (emptyQuery\<lparr>limit := Some ''0''\<rparr>)) catalog) = catalog"
    by code_simp
  have "catalog \<noteq> []" by (simp add: catalog_def)
  with a b show ?thesis by simp
qed

text \<open>
  C6, amended. Fix a catalog, the filters, the sort key and a page size that parses to
  a positive integer \<open>n\<close>. Requesting the pages 1, 2, ..., \<open>N\<close> one after the other, with
  \<open>N * n\<close> at least the number of matching products, and concatenating the items
  gives exactly the filtered and sorted sequence: every matching product once, none
  twice and none left out. The calls run against the store as the call before left
  it.
\<close>

theorem pages_concatenate:
  assumes "parseInt (limitArg q) = Finite (of_nat n)" "1 \<le> n"
    and "map parseInt pgs = map (\<lambda>i. Finite (of_nat i)) [1..<Suc N]"
    and "length (filter (satisfiesFilters q) c) \<le> N * n"
  shows "fst (fetchPages c q pgs) = orderBy q (filter (satisfiesFilters q) c) \<and>
         mset (fst (fetchPages c q pgs)) = mset (filter (satisfiesFilters q) c)"
proof -
  from assms(3) have "length pgs = N"
    by (metis length_map length_upt diff_Suc_1)
  with assms(3) have "map parseInt pgs = map (\<lambda>i. Finite (of_nat i)) [Suc 0..<Suc 0 + length pgs]"
    by simp
  from fetchPages_from [OF assms(1) this, of c] \<open>length pgs = N\<close> assms(4)
  have "fst (fetchPages c q pgs) = orderBy q (filter (satisfiesFilters q) c)"
    by (simp add: orderBy_simps)
  then show ?thesis
    by (simp add: orderBy_simps)
qed

theorem pages_concatenate_witness:
  "parseInt (limitArg (emptyQuery\<lparr>sort_q := Some ''price_asc'', limit := Some ''2''\<rparr>)) =
     Finite (of_nat 2) \<and> (1::nat) \<le> 2 \<and>
   map parseInt [''1'', ''2'', ''3''] = map (\<lambda>i. Finite (of_nat i)) [1..<Suc 3] \<and>
   length (filter (satisfiesFilters (emptyQuery\<lparr>sort_q := Some ''price_asc'', limit := Some ''2''\<rparr>))
     tiedCatalog) \<le> 3 * 2 \<and>
   fst (fetchPages tiedCatalog (emptyQuery\<lparr>sort_q := Some ''price_asc'', limit := Some ''2''\<rparr>)
     [''1'', ''2'', ''3'']) =
     orderBy (emptyQuery\<lparr>sort_q := Some ''price_asc'', limit := Some ''2''\<rparr>)
       (filter (satisfiesFilters (emptyQuery\<lparr>sort_q := Some ''price_asc'', limit := Some ''2''\<rparr>))
          tiedCatalog) \<and>
   orderBy (emptyQuery\<lparr>sort_q := Some ''price_asc'', limit := Some ''2''\<rparr>)
       (filter (satisfiesFilters (emptyQuery\<lparr>sort_q := Some ''price_asc'', limit := Some ''2''\<rparr>))
          tiedCatalog) = [productD, productA, productF, productC, productB, productE]"
proof -
  let ?q = "emptyQuery\<lparr>sort_q := Some ''price_asc'', limit := Some ''2''\<rparr>"
  have h1: "parseInt (limitArg ?q) = Finite (of_nat 2)" by code_simp
  have h2: "(1::nat) \<le> 2" by simp
  have h3: "map parseInt [''1'', ''2'', ''3''] = map (\<lambda>i. Finite (of_nat i)) [1..<Suc 3]"
    by code_simp
  have h4: "length (filter (satisfiesFilters ?q) tiedCatalog) \<le> 3 * 2" by code_simp
  have e: "orderBy ?q (filter (satisfiesFilters ?q) tiedCatalog) =
      [productD, productA, productF, productC, productB, productE]"
    by code_simp
  from pages_concatenate [OF h1 h2 h3 h4] h1 h2 h3 h4 e show ?thesis
    by blast
qed

text \<open>
  C7, as stated, fails: with \<open>limit=0\<close> and a search that matches nothing the total
  is 0 and the number of pages is \<open>Math.ceil(0 / 0)\<close>, which is NaN and not 0.
\<close>

theorem total_pages_zero_limit:
  "\<not> (pagination_pages (fst (getProducts catalog
          (emptyQuery\<lparr>search := Some ''zzz'', limit := Some ''0''\<rparr>))) = Finite 0 \<longleftrightarrow>
       pagination_total (fst (getProducts catalog
          (emptyQuery\<lparr>search := Some ''zzz'', limit := Some ''0''\<rparr>))) = 0)"
proof -
  have "pagination_pages (fst (getProducts catalog
          (emptyQuery\<lparr>search := Some ''zzz'', limit := Some ''0''\<rparr>))) = NaN" by code_simp
  moreover have "pagination_total (fst (getProducts catalog
          (emptyQuery\<lparr>search := Some ''zzz'', limit := Some ''0''\<rparr>))) = 0" by code_simp
  ultimately show ?thesis by simp
qed

text \<open>
  C7, amended. The total is the number of products that satisfy the filters and the
  number of pages is \<open>Math.ceil(total / limit)\<close> in JavaScript arithmetic. When the limit
  parses to a positive integer \<open>n\<close>, this is the ceiling of \<open>total / n\<close>, it is at least 0,
  and it is 0 exactly when the total is 0.
\<close>

theorem total_pages:
  "pagination_total (fst (getProducts c q)) = length (filter (satisfiesFilters q) c) \<and>
   pagination_pages (fst (getProducts c q)) =
     Math_ceil (js_div (Finite (of_nat (pagination_total (fst (getProducts c q)))))
                       (pagination_limit (fst (getProducts c q)))) \<and>
   (parseInt (limitArg q) = Finite (of_nat n) \<and> 1 \<le> n \<longrightarrow>
      pagination_pages (fst (getProducts c q)) =
        Finite (of_int \<lceil>rat_of_nat (pagination_total (fst (getProducts c q))) / rat_of_nat n\<rceil>) \<and>
      js_le (Finite 0) (pagination_pages (fst (getProducts c q))) \<and>
      (pagination_pages (fst (getProducts c q)) = Finite 0 \<longleftrightarrow>
         pagination_total (fst (getProducts c q)) = 0))"
proof (intro conjI impI)
  show "pagination_total (fst (getProducts c q)) = length (filter (satisfiesFilters q) c)"
    by (simp add: getProducts_char)
  show "pagination_pages (fst (getProducts c q)) =
     Math_ceil (js_div (Finite (of_nat (pagination_total (fst (getProducts c q)))))
                       (pagination_limit (fst (getProducts c q))))"
    by (simp add: getProducts_char)
next
  assume a: "parseInt (limitArg q) = Finite (of_nat n) \<and> 1 \<le> n"
  then have pg: "pagination_pages (fst (getProducts c q)) =
        Finite (of_int \<lceil>rat_of_nat (pagination_total (fst (getProducts c q))) / rat_of_nat n\<rceil>)"
    by (simp add: getProducts_char)
  then show "pagination_pages (fst (getProducts c q)) =
        Finite (of_int \<lceil>rat_of_nat (pagination_total (fst (getProducts c q))) / rat_of_nat n\<rceil>)" .
  show "js_le (Finite 0) (pagination_pages (fst (getProducts c q)))"
    unfolding pg using ceiling_div_nonneg by simp
  show "pagination_pages (fst (getProducts c q)) = Finite 0 \<longleftrightarrow>
         pagination_total (fst (getProducts c q)) = 0"
    unfolding pg using ceiling_div_zero [of n] a by simp
qed

theorem total_pages_witness:
  "parseInt (limitArg (emptyQuery\<lparr>limit := Some ''2''\<rparr>)) = Finite (of_nat 2) \<and> (1::nat) \<le> 2 \<and>
   pagination_total (fst (getProducts catalog (emptyQuery\<lparr>limit := Some ''2''\<rparr>))) = 5 \<and>
   pagination_pages (fst (getProducts catalog (emptyQuery\<lparr>limit := Some ''2''\<rparr>))) = Finite 3 \<and>
   js_le (Finite 0) (pagination_pages (fst (getProducts catalog (emptyQuery\<lparr>limit := Some ''2''\<rparr>)))) \<and>
   (pagination_pages (fst (getProducts catalog (emptyQuery\<lparr>limit := Some ''2''\<rparr>))) = Finite 0 \<longleftrightarrow>
    pagination_total (fst (getProducts catalog (emptyQuery\<lparr>limit := Some ''2''\<rparr>))) = 0)"
proof -
  let ?q = "emptyQuery\<lparr>limit := Some ''2''\<rparr>"
  have h: "parseInt (limitArg ?q) = Finite (of_nat 2)" by code_simp
  have n: "(1::nat) \<le> 2" by simp
  have t: "pagination_total (fst (getProducts catalog ?q)) = 5" by code_simp
  have p: "pagination_pages (fst (getProducts catalog ?q)) = Finite 3" by code_simp
  from total_pages [of catalog ?q 2] h n t p show ?thesis
    by blast
qed

text \<open>
  C8, as stated, fails: with \<open>limit=-1\<close> the slice runs from 0 to \<open>-1\<close>, that is over all
  products but the last, so the five-product catalog gives four items for a page size
  of \<open>-1\<close>.
\<close>

theorem negative_limit_page_length:
  "\<not> js_le (Finite (of_nat (length (products (fst (getProducts catalog
            (emptyQuery\<lparr>limit := Some ''-1''\<rparr>))))))) 
          (pagination_limit (fst (getProducts catalog (emptyQuery\<lparr>limit := Some ''-1''\<rparr>))))"
  by code_simp

text \<open>
  C8, amended. No query is an error. The total is the number of products that satisfy
  the filters and the number of pages is \<open>Math.ceil(total / limit)\<close>, whatever the page.
  A query that matches no product returns no items. When the limit parses to a natural
  number \<open>n\<close>, the items are at most \<open>n\<close>, and a page greater than the number of pages
  returns no items.
\<close>

theorem empty_results_and_page_length:
  "pagination_total (fst (getProducts c q)) = length (filter (satisfiesFilters q) c) \<and>
   (pagination_total (fst (getProducts c q)) = 0 \<longrightarrow> products (fst (getProducts c q)) = []) \<and>
   pagination_pages (fst (getProducts c q)) =
     Math_ceil (js_div (Finite (of_nat (pagination_total (fst (getProducts c q)))))
                       (pagination_limit (fst (getProducts c q)))) \<and>
   (parseInt (limitArg q) = Finite (of_nat n) \<longrightarrow>
      length (products (fst (getProducts c q))) \<le> n \<and>
      (js_gt (pagination_page (fst (getProducts c q))) (pagination_pages (fst (getProducts c q))) \<longrightarrow>
         products (fst (getProducts c q)) = []))"
proof (intro conjI impI)
  show "pagination_pages (fst (getProducts c q)) =
     Math_ceil (js_div (Finite (of_nat (pagination_total (fst (getProducts c q)))))
                       (pagination_limit (fst (getProducts c q))))"
    by (simp add: getProducts_char)
  show "pagination_total (fst (getProducts c q)) = length (filter (satisfiesFilters q) c)"
    by (simp add: getProducts_char)
  show "products (fst (getProducts c q)) = []"
    if "pagination_total (fst (getProducts c q)) = 0"
    using that by (simp add: getProducts_char orderBy_def slice_Nil)
  show "length (products (fst (getProducts c q))) \<le> n"
    if "parseInt (limitArg q) = Finite (of_nat n)"
    using page_length_le [OF that] by (simp add: getProducts_char)
  show "products (fst (getProducts c q)) = []"
    if "parseInt (limitArg q) = Finite (of_nat n)"
      and "js_gt (pagination_page (fst (getProducts c q))) (pagination_pages (fst (getProducts c q)))"
    using that
    by (intro page_beyond_empty [where xs = "orderBy q (filter (satisfiesFilters q) c)" and n = n])
      (simp_all add: getProducts_char orderBy_simps)
qed

theorem empty_results_and_page_length_witness:
  "pagination_total (fst (getProducts catalog (emptyQuery\<lparr>search := Some ''zzz''\<rparr>))) = 0 \<and>
   products (fst (getProducts catalog (emptyQuery\<lparr>search := Some ''zzz''\<rparr>))) = [] \<and>
   parseInt (limitArg (emptyQuery\<lparr>page := Some ''99'', limit := Some ''2''\<rparr>)) = Finite (of_nat 2) \<and>
   js_gt (pagination_page (fst (getProducts catalog (emptyQuery\<lparr>page := Some ''99'', limit := Some ''2''\<rparr>))))
         (pagination_pages (fst (getProducts catalog (emptyQuery\<lparr>page := Some ''99'', limit := Some ''2''\<rparr>)))) \<and>
   products (fst (getProducts catalog (emptyQuery\<lparr>page := Some ''99'', limit := Some ''2''\<rparr>))) = [] \<and>
   length (products (fst (getProducts catalog (emptyQuery\<lparr>page := Some ''99'', limit := Some ''2''\<rparr>)))) \<le> 2 \<and>
   pagination_total (fst (getProducts catalog (emptyQuery\<lparr>page := Some ''99'', limit := Some ''2''\<rparr>))) = 5 \<and>
   pagination_pages (fst (getProducts catalog (emptyQuery\<lparr>page := Some ''99'', limit := Some ''2''\<rparr>))) = Finite 3"
proof -
  let ?q1 = "emptyQuery\<lparr>search := Some ''zzz''\<rparr>"
  let ?q2 = "emptyQuery\<lparr>page := Some ''99'', limit := Some ''2''\<rparr>"
  have z: "pagination_total (fst (getProducts catalog ?q1)) = 0" by code_simp
  have h: "parseInt (limitArg ?q2) = Finite (of_nat 2)" by code_simp
  have g: "js_gt (pagination_page (fst (getProducts catalog ?q2)))
         (pagination_pages (fst (getProducts catalog ?q2)))" by code_simp
  have t: "pagination_total (fst (getProducts catalog ?q2)) = 5"
    "pagination_pages (fst (getProducts catalog ?q2)) = Finite 3" by code_simp+
  from empty_results_and_page_length [of catalog ?q1]
    empty_results_and_page_length [of catalog ?q2 2] z h g t
  show ?thesis by blast
qed

text \<open>
  C9, as stated, fails: \<open>minPrice=abc\<close> does not parse, and the query returns no
  product, where the same query without the bound returns the whole catalog.
\<close>

theorem unparsable_bound_rejects_all:
  "parseFloat ''abc'' = NaN \<and>
   products (fst (getProducts catalog (emptyQuery\<lparr>minPrice := Some ''abc''\<rparr>))) = [] \<and>
   products (fst (getProducts catalog (emptyQuery\<lparr>minPrice := None\<rparr>))) = catalog \<and>
   fst (getProducts catalog (emptyQuery\<lparr>minPrice := Some ''abc''\<rparr>)) \<noteq>
   fst (getProducts catalog (emptyQuery\<lparr>minPrice := None\<rparr>))"
proof -
  have a: "parseFloat ''abc'' = NaN" by code_simp
  have b: "products (fst (getProducts catalog (emptyQuery\<lparr>minPrice := Some ''abc''\<rparr>))) = []"
    by code_simp
  have c: "products (fst (getProducts catalog (emptyQuery\<lparr>minPrice := None\<rparr>))) = catalog"
    by code_simp
  have "catalog \<noteq> []" by (simp add: catalog_def)
  with b c have "fst (getProducts catalog (emptyQuery\<lparr>minPrice := Some ''abc''\<rparr>)) \<noteq>
   fst (getProducts catalog (emptyQuery\<lparr>minPrice := None\<rparr>))"
    by metis
  with a b c show ?thesis by blast
qed

text \<open>
  C9, amended. A price bound that is the empty string is not applied: the result is
  that of the query without the bound. A bound that is not empty and that \<open>parseFloat\<close>
  turns into NaN is applied, and no price passes a comparison with NaN: the query
  returns no items and a total of 0.
\<close>

theorem price_bound_parsing:
  "(minPrice q = Some [] \<longrightarrow> getProducts c q = getProducts c (q\<lparr>minPrice := None\<rparr>)) \<and>
   (maxPrice q = Some [] \<longrightarrow> getProducts c q = getProducts c (q\<lparr>maxPrice := None\<rparr>)) \<and>
   ((minPrice q = Some m \<or> maxPrice q = Some m) \<and> m \<noteq> [] \<and> parseFloat m = NaN \<longrightarrow>
      products (fst (getProducts c q)) = [] \<and> pagination_total (fst (getProducts c q)) = 0)"
  using empty_minPrice [of q c] empty_maxPrice [of q c] NaN_bound_no_match [of q m c]
  by (simp add: getProducts_char orderBy_def slice_Nil)

theorem price_bound_parsing_witness:
  "minPrice (emptyQuery\<lparr>minPrice := Some []\<rparr>) = Some [] \<and>
   getProducts catalog (emptyQuery\<lparr>minPrice := Some []\<rparr>) =
     getProducts catalog (emptyQuery\<lparr>minPrice := Some [], minPrice := None\<rparr>) \<and>
   maxPrice (emptyQuery\<lparr>maxPrice := Some []\<rparr>) = Some [] \<and>
   getProducts catalog (emptyQuery\<lparr>maxPrice := Some []\<rparr>) =
     getProducts catalog (emptyQuery\<lparr>maxPrice := Some [], maxPrice := None\<rparr>) \<and>
   (minPrice (emptyQuery\<lparr>minPrice := Some ''abc''\<rparr>) = Some ''abc'' \<or>
    maxPrice (emptyQuery\<lparr>minPrice := Some ''abc''\<rparr>) = Some ''abc'') \<and>
   ''abc'' \<noteq> [] \<and> parseFloat ''abc'' = NaN \<and>
   products (fst (getProducts catalog (emptyQuery\<lparr>minPrice := Some ''abc''\<rparr>))) = [] \<and>
   pagination_total (fst (getProducts catalog (emptyQuery\<lparr>minPrice := Some ''abc''\<rparr>))) = 0 \<and>
   (minPrice (emptyQuery\<lparr>maxPrice := Some ''cheap''\<rparr>) = Some ''cheap'' \<or>
    maxPrice (emptyQuery\<lparr>maxPrice := Some ''cheap''\<rparr>) = Some ''cheap'') \<and>
   ''cheap'' \<noteq> [] \<and> parseFloat ''cheap'' = NaN \<and>
   products (fst (getProducts catalog (emptyQuery\<lparr>maxPrice := Some ''cheap''\<rparr>))) = [] \<and>
   pagination_total (fst (getProducts catalog (emptyQuery\<lparr>maxPrice := Some ''cheap''\<rparr>))) = 0"
proof -
  have a: "minPrice (emptyQuery\<lparr>minPrice := Some []\<rparr>) = Some []"
    "maxPrice (emptyQuery\<lparr>maxPrice := Some []\<rparr>) = Some []"
    "minPrice (emptyQuery\<lparr>minPrice := Some ''abc''\<rparr>) = Some ''abc''"
    "maxPrice (emptyQuery\<lparr>maxPrice := Some ''cheap''\<rparr>) = Some ''cheap''"
    "''abc'' \<noteq> []" "''cheap'' \<noteq> []"
    by simp_all
  have b: "parseFloat ''abc'' = NaN" "parseFloat ''cheap'' = NaN" by code_simp+
  from a b
    price_bound_parsing [of "emptyQuery\<lparr>minPrice := Some []\<rparr>" catalog]
    price_bound_parsing [of "emptyQuery\<lparr>maxPrice := Some []\<rparr>" catalog]
    price_bound_parsing [of "emptyQuery\<lparr>minPrice := Some ''abc''\<rparr>" catalog "''abc''"]
    price_bound_parsing [of "emptyQuery\<lparr>maxPrice := Some ''cheap''\<rparr>" catalog "''cheap''"]
  show ?thesis by blast
qed

text \<open>
  C10. For every catalog and every query whose \<open>sort\<close> is none of \<open>price_asc\<close>,
  \<open>price_desc\<close> and \<open>rating\<close> (absent, or any other string), the call returns a response,
  nothing is reordered, and the items are the page slice of the products that satisfy
  the filters, in the order of the catalog.
\<close>

theorem unrecognised_sort_keeps_order:
  assumes "sort_q q \<noteq> Some ''price_asc''" "sort_q q \<noteq> Some ''price_desc''"
    "sort_q q \<noteq> Some ''rating''"
  shows "products (fst (getProducts c q)) =
           slice (filter (satisfiesFilters q) c) (startIndex q) (endIndex q) \<and>
         sublist (products (fst (getProducts c q))) (filter (satisfiesFilters q) c) \<and>
         snd (getProducts c q) = c"
  using assms by (simp add: getProducts_char orderBy_def sublist_slice)

theorem unrecognised_sort_keeps_order_witness:
  "sort_q (emptyQuery\<lparr>category := Some ''x'', sort_q := Some ''newest'', limit := Some ''2''\<rparr>)
     \<noteq> Some ''price_asc'' \<and>
   sort_q (emptyQuery\<lparr>category := Some ''x'', sort_q := Some ''newest'', limit := Some ''2''\<rparr>)
     \<noteq> Some ''price_desc'' \<and>
   sort_q (emptyQuery\<lparr>category := Some ''x'', sort_q := Some ''newest'', limit := Some ''2''\<rparr>)
     \<noteq> Some ''rating'' \<and>
   products (fst (getProducts catalog
       (emptyQuery\<lparr>category := Some ''x'', sort_q := Some ''newest'', limit := Some ''2''\<rparr>))) =
     [productA, productC] \<and>
   snd (getProducts catalog
       (emptyQuery\<lparr>category := Some ''x'', sort_q := Some ''newest'', limit := Some ''2''\<rparr>)) = catalog"
proof -
  have e: "slice (filter (satisfiesFilters
        (emptyQuery\<lparr>category := Some ''x'', sort_q := Some ''newest'', limit := Some ''2''\<rparr>)) catalog)
      (startIndex (emptyQuery\<lparr>category := Some ''x'', sort_q := Some ''newest'', limit := Some ''2''\<rparr>))
      (endIndex (emptyQuery\<lparr>category := Some ''x'', sort_q := Some ''newest'', limit := Some ''2''\<rparr>))
     = [productA, productC]"
    by code_simp
  have s: "sort_q (emptyQuery\<lparr>category := Some ''x'', sort_q := Some ''newest'', limit := Some ''2''\<rparr>)
     \<noteq> Some ''price_asc''"
    "sort_q (emptyQuery\<lparr>category := Some ''x'', sort_q := Some ''newest'', limit := Some ''2''\<rparr>)
     \<noteq> Some ''price_desc''"
    "sort_q (emptyQuery\<lparr>category := Some ''x'', sort_q := Some ''newest'', limit := Some ''2''\<rparr>)
     \<noteq> Some ''rating''"
    by (simp_all add: emptyQuery_def)
  from unrecognised_sort_keeps_order [OF s, of catalog] e s show ?thesis
    by metis
qed

end
